theory Spec2Isabelle
  imports Complex_Main "HOL-Library.Multiset"
begin

section \<open>Forex gap screener: a shallow embedding of gap_screener.py\<close>

text \<open>
  The module downloads an hourly price series per ticker, picks the last Friday bar and the
  first Sunday-evening bar in the Europe/Paris zone, computes the percentage gap between
  them, ranks the tickers by absolute gap and delivers the report (file and console, or
  e-mail).

  Modelling choices, stated once:
  \<^item> a Python \<open>float\<close> is a \<open>real\<close>: finite values, no rounding, no NaN;
  \<^item> a timestamp is an instant in whole seconds since the epoch (\<open>int\<close>); the time zone
    is a function giving the UTC offset, in seconds, in force at an instant;
  \<^item> a raised exception is a value \<open>Inl e\<close> of a sum type;
  \<^item> the functions of pandas, yfinance and smtplib that the module calls are either
    written out (\<open>.loc\<close>, \<open>.abs().fillna(0)\<close>, \<open>index.max()\<close>) or taken as
    parameters (the provider, the mail transport, the text rendering of the report; the
    sorting routine of \<open>sort_values\<close> is a parameter of \<open>build_report\<close>, and
    \<open>nargsort\<close> is the routine pandas runs).
\<close>

subsection \<open>Exceptions\<close>

datatype error =
    TypeError string
  | ValueError string
  | ZeroDivisionError string
  | OtherError string

text \<open>\<open>str(e)\<close>: the message of an exception.\<close>

fun message :: "error \<Rightarrow> string" where
  "message (TypeError m) = m"
| "message (ValueError m) = m"
| "message (ZeroDivisionError m) = m"
| "message (OtherError m) = m"

subsection \<open>Local time\<close>

type_synonym tzinfo = "int \<Rightarrow> int"

definition local_seconds :: "tzinfo \<Rightarrow> int \<Rightarrow> int" where
  "local_seconds tz t = t + tz t"

text \<open>
  \<open>index.weekday\<close>: Monday is 0, Friday 4, Sunday 6. Day 0 of the epoch, 1 January 1970,
  was a Thursday (3).
\<close>

definition weekday :: "tzinfo \<Rightarrow> int \<Rightarrow> int" where
  "weekday tz t = (local_seconds tz t div 86400 + 3) mod 7"

definition hour :: "tzinfo \<Rightarrow> int \<Rightarrow> int" where
  "hour tz t = (local_seconds tz t mod 86400) div 3600"

text \<open>Central European (winter) time, the offset of Europe/Paris outside daylight saving.\<close>

definition CET :: tzinfo where
  "CET = (\<lambda>_. 3600)"

subsection \<open>Price series\<close>

record bar =
  ts :: int
  Open :: real
  Close :: real

text \<open>
  A data frame as the provider returns it: its rows, and whether it has an \<open>Open\<close> column
  (\<open>"Open" in df.columns\<close>). \<open>df.empty\<close> is \<open>bars df = []\<close>.
\<close>

record frame =
  has_Open :: bool
  bars :: "bar list"

definition empty_frame :: frame where
  "empty_frame = \<lparr>has_Open = False, bars = []\<rparr>"

type_synonym provider = "string \<Rightarrow> error + frame"

text \<open>\<open>yf_download_safe\<close>: any exception of the provider becomes an empty frame.\<close>

definition yf_download_safe :: "provider \<Rightarrow> string \<Rightarrow> frame" where
  "yf_download_safe yf ticker =
     (case yf ticker of Inl e \<Rightarrow> empty_frame | Inr df \<Rightarrow> df)"

subsection \<open>Locating the Friday close and the Sunday open\<close>

definition cannot_convert :: string where
  "cannot_convert = ''cannot convert the series to <class '' @ [CHR 0x27] @ ''float''
     @ [CHR 0x27] @ ''>''"

text \<open>
  \<open>float(rows.loc[t, col])\<close>. With one row labelled \<open>t\<close>, \<open>.loc\<close> gives a scalar. With
  several rows labelled \<open>t\<close> it gives a Series of all of them, and \<open>float\<close> of a Series
  of more than one element raises TypeError. With none it raises KeyError (here
  \<open>OtherError\<close>); the callers only pass labels taken from the index.
\<close>

definition loc_float :: "bar list \<Rightarrow> int \<Rightarrow> (bar \<Rightarrow> real) \<Rightarrow> error + real" where
  "loc_float rows t col =
     (case filter (\<lambda>b. ts b = t) rows of
        [] \<Rightarrow> Inl (OtherError ''KeyError'')
      | [b] \<Rightarrow> Inr (col b)
      | _ \<Rightarrow> Inl (TypeError cannot_convert))"

text \<open>\<open>df.loc[t, "Open"] if "Open" in df.columns else df.loc[t, "Close"]\<close>\<close>

definition open_column :: "frame \<Rightarrow> bar \<Rightarrow> real" where
  "open_column df = (if has_Open df then Open else Close)"

type_synonym session_pair = "int option \<times> real option \<times> int option \<times> real option"

definition is_friday :: "tzinfo \<Rightarrow> bar \<Rightarrow> bool" where
  "is_friday tz b \<longleftrightarrow> weekday tz (ts b) = 4"

definition is_sunday :: "tzinfo \<Rightarrow> bar \<Rightarrow> bool" where
  "is_sunday tz b \<longleftrightarrow> weekday tz (ts b) = 6"

definition is_sunday_candidate :: "tzinfo \<Rightarrow> bar \<Rightarrow> bool" where
  "is_sunday_candidate tz b \<longleftrightarrow> weekday tz (ts b) = 6 \<and> hour tz (ts b) \<ge> 22"

text \<open>
  \<open>get_friday_close_and_sunday_open\<close>. The index is converted to the zone \<open>tz\<close> (a naive
  index is read as UTC first, so in both branches the instants are kept and only the local
  reading changes), the frame is sorted by timestamp, and the two bars are looked up.
\<close>

definition get_friday_close_and_sunday_open ::
  "tzinfo \<Rightarrow> provider \<Rightarrow> string \<Rightarrow> error + session_pair" where
  "get_friday_close_and_sunday_open tz yf ticker =
     (let df0 = yf_download_safe yf ticker in
      if bars df0 = [] then Inr (None, None, None, None)
      else
        let df = sort_key ts (bars df0);
            friday_rows = filter (is_friday tz) df
        in
        if friday_rows = [] then Inr (None, None, None, None)
        else
          let friday_time = Max (set (map ts friday_rows)) in
          (case loc_float friday_rows friday_time Close of
             Inl e \<Rightarrow> Inl e
           | Inr friday_close \<Rightarrow>
               let sunday_candidates = filter (is_sunday_candidate tz) df in
               if sunday_candidates = [] then
                 let sunday_rows = filter (is_sunday tz) df in
                 if sunday_rows = [] then Inr (Some friday_time, Some friday_close, None, None)
                 else
                   let sunday_time = Min (set (map ts sunday_rows)) in
                   (case loc_float df sunday_time (open_column df0) of
                      Inl e \<Rightarrow> Inl e
                    | Inr sunday_open \<Rightarrow>
                        Inr (Some friday_time, Some friday_close,
                             Some sunday_time, Some sunday_open))
               else
                 let sunday_time = Min (set (map ts sunday_candidates)) in
                 (case loc_float df sunday_time (open_column df0) of
                    Inl e \<Rightarrow> Inl e
                  | Inr sunday_open \<Rightarrow>
                      Inr (Some friday_time, Some friday_close,
                           Some sunday_time, Some sunday_open))))"

subsection \<open>One Screening Result per ticker\<close>

record row =
  pair :: string
  friday_time :: "int option"
  friday_close :: "real option"
  sunday_time :: "int option"
  sunday_open :: "real option"
  gap_pct :: "real option"
  row_note :: "string option"

text \<open>
  The row stores \<open>str(f_time)\<close> and \<open>str(s_time)\<close>; the model keeps the instants
  themselves.
\<close>

definition truediv :: "real \<Rightarrow> real \<Rightarrow> error + real" where
  "truediv a b =
     (if b = 0 then Inl (ZeroDivisionError ''float division by zero'') else Inr (a / b))"

text \<open>
  Lines 124 to 126 of \<open>main\<close>: \<open>f_close\<close> and \<open>s_open\<close> are either \<open>None\<close> or the
  result of \<open>float(...)\<close>, so \<open>isinstance(x, float)\<close> is \<open>x \<noteq> None\<close>.
\<close>

definition gap_calc :: "real option \<Rightarrow> real option \<Rightarrow> error + real option" where
  "gap_calc f_close s_open =
     (case f_close of
        None \<Rightarrow> Inr None
      | Some f \<Rightarrow>
          (case s_open of
             None \<Rightarrow> Inr None
           | Some s \<Rightarrow>
               if f \<noteq> 0 then
                 (case truediv (s - f) f of
                    Inl e \<Rightarrow> Inl e
                  | Inr q \<Rightarrow> Inr (Some (q * 100)))
               else Inr None))"

definition error_row :: "string \<Rightarrow> error \<Rightarrow> row" where
  "error_row ticker e =
     \<lparr>pair = ticker, friday_time = None, friday_close = None, sunday_time = None,
      sunday_open = None, gap_pct = None, row_note = Some (''error: '' @ message e)\<rparr>"

text \<open>The body of the loop of \<open>main\<close>, lines 117 to 130, with its \<open>try\<close>/\<open>except\<close>.\<close>

definition process_ticker :: "tzinfo \<Rightarrow> provider \<Rightarrow> string \<Rightarrow> row" where
  "process_ticker tz yf ticker =
     (case get_friday_close_and_sunday_open tz yf ticker of
        Inl e \<Rightarrow> error_row ticker e
      | Inr (f_time, f_close, s_time, s_open) \<Rightarrow>
          let note = [];
              note = (if f_close = None then ''no friday data'' else note);
              note = (if s_open = None then ''no sunday open'' else note)
          in
          (case gap_calc f_close s_open of
             Inl e \<Rightarrow> error_row ticker e
           | Inr gap \<Rightarrow>
               \<lparr>pair = ticker, friday_time = f_time, friday_close = f_close,
                sunday_time = s_time, sunday_open = s_open, gap_pct = gap,
                row_note = (if note = [] then None else Some note)\<rparr>))"

text \<open>The loop itself: \<open>rows\<close> starts empty and every ticker appends one row.\<close>

fun collect_rows :: "tzinfo \<Rightarrow> provider \<Rightarrow> string list \<Rightarrow> row list \<Rightarrow> row list" where
  "collect_rows tz yf [] rows = rows"
| "collect_rows tz yf (ticker # pairs) rows =
     collect_rows tz yf pairs (rows @ [process_ticker tz yf ticker])"

subsection \<open>The report\<close>

definition bad_operand :: string where
  "bad_operand = ''bad operand type for abs(): '' @ [CHR 0x27] @ ''NoneType'' @ [CHR 0x27]"

text \<open>\<open>df["gap_pct"].abs().fillna(0)\<close>, row by row.\<close>

definition abs_gap :: "row \<Rightarrow> real" where
  "abs_gap r = (case gap_pct r of None \<Rightarrow> 0 | Some g \<Rightarrow> \<bar>g\<bar>)"

text \<open>
  The sorting routine behind \<open>sort_values("abs_gap", ascending=False)\<close> is a parameter
  of \<open>build_report\<close>; \<open>sorts_descending\<close> says of a routine that it returns the same
  rows in descending order of the key.
\<close>

type_synonym sorter = "(row \<Rightarrow> real) \<Rightarrow> row list \<Rightarrow> row list"

definition sorts_descending :: "sorter \<Rightarrow> bool" where
  "sorts_descending sort_values \<longleftrightarrow>
     (\<forall>key rows. mset (sort_values key rows) = mset rows
        \<and> sorted_wrt (\<lambda>a b. key a \<ge> key b) (sort_values key rows))"

text \<open>The descending sort that keeps rows with equal keys in their order.\<close>

definition stable_descending :: sorter where
  "stable_descending key rows = sort_key (\<lambda>r. - key r) rows"

text \<open>
  The routine pandas runs for \<open>sort_values\<close> on one column, \<open>nargsort\<close>: with
  \<open>ascending=False\<close> it reverses the rows, takes the ascending \<open>argsort\<close> of the keys
  and reverses the result. The \<open>argsort\<close> of numpy is read as the ascending sort that
  leaves rows with equal keys in the order it gets them, which is what it does on the
  short arrays of a run; the double reversal then keeps equal keys in input order.
\<close>

definition nargsort :: sorter where
  "nargsort key rows = rev (sort_key key (rev rows))"

text \<open>
  \<open>build_report\<close>. A column of the frame built from the tuples is numeric as soon as one
  entry is a float (the \<open>None\<close> entries become NaN, which \<open>fillna(0)\<close> replaces), but a
  column whose entries are all \<open>None\<close> keeps the object dtype, and \<open>.abs()\<close> on it applies
  \<open>abs\<close> to \<open>None\<close>: TypeError. A frame with no row has nothing to apply it to.
\<close>

definition build_report :: "sorter \<Rightarrow> row list \<Rightarrow> error + row list" where
  "build_report sort_values rows =
     (if rows \<noteq> [] \<and> list_all (\<lambda>r. gap_pct r = None) rows
      then Inl (TypeError bad_operand)
      else Inr (sort_values abs_gap rows))"

subsection \<open>Mail settings and delivery\<close>

type_synonym environ = "string \<Rightarrow> string option"

record settings =
  SMTP_HOST :: "string option"
  SMTP_PORT :: "int option"
  SMTP_USER :: "string option"
  SMTP_PASS :: "string option"
  EMAIL_FROM :: "string option"
  EMAIL_TO :: "string option"

text \<open>Truth values of Python: \<open>None\<close>, the empty string and 0 are false.\<close>

definition truthy_str :: "string option \<Rightarrow> bool" where
  "truthy_str v = (case v of None \<Rightarrow> False | Some s \<Rightarrow> s \<noteq> [])"

definition truthy_int :: "int option \<Rightarrow> bool" where
  "truthy_int v = (case v of None \<Rightarrow> False | Some n \<Rightarrow> n \<noteq> 0)"

text \<open>
  The module-level assignments of lines 29 to 34. \<open>int\<close> is Python's conversion of a
  string, a parameter; it raises ValueError on a string that is not a number, and the
  module then fails to load.
\<close>

definition load_settings :: "(string \<Rightarrow> error + int) \<Rightarrow> environ \<Rightarrow> error + settings" where
  "load_settings to_int env =
     (let port =
        (if truthy_str (env ''SMTP_PORT'')
         then (case to_int (case env ''SMTP_PORT'' of None \<Rightarrow> ''587'' | Some p \<Rightarrow> p) of
                 Inl e \<Rightarrow> Inl e
               | Inr n \<Rightarrow> Inr (Some n))
         else Inr None)
      in case port of
           Inl e \<Rightarrow> Inl e
         | Inr smtp_port \<Rightarrow>
             Inr \<lparr>SMTP_HOST = env ''SMTP_HOST'',
                  SMTP_PORT = smtp_port,
                  SMTP_USER = env ''SMTP_USER'',
                  SMTP_PASS = env ''SMTP_PASS'',
                  EMAIL_FROM = (if truthy_str (env ''EMAIL_FROM'') then env ''EMAIL_FROM''
                                else env ''SMTP_USER''),
                  EMAIL_TO = env ''EMAIL_TO''\<rparr>)"

text \<open>A reading of plain decimal numerals, used where an example needs a conversion.\<close>

definition digit_of :: "char \<Rightarrow> int" where
  "digit_of c = int (of_char c) - 48"

definition is_digit :: "char \<Rightarrow> bool" where
  "is_digit c \<longleftrightarrow> (48::nat) \<le> of_char c \<and> of_char c \<le> (57::nat)"

definition decimal_int :: "string \<Rightarrow> error + int" where
  "decimal_int s =
     (if s \<noteq> [] \<and> list_all is_digit s
      then Inr (foldl (\<lambda>n c. 10 * n + digit_of c) 0 s)
      else Inl (ValueError ''invalid literal for int() with base 10''))"

record email =
  subject :: string
  body :: string
  csv_content :: string
  smtp_host :: string
  smtp_port :: int
  smtp_user :: string
  smtp_pass :: string
  email_from :: string
  email_to_list :: "string list"

datatype effect = WriteCsv string | Print string | SendEmail email

text \<open>The mail transport (\<open>smtplib\<close>): \<open>None\<close> when the message went out, or its exception.\<close>

type_synonym transport = "email \<Rightarrow> error option"

text \<open>\<open>s.split(",")\<close> and \<open>s.strip()\<close> on ASCII text.\<close>

fun split_on :: "char \<Rightarrow> string \<Rightarrow> string list" where
  "split_on c [] = [[]]"
| "split_on c (x # xs) =
     (if x = c then [] # split_on c xs
      else (case split_on c xs of [] \<Rightarrow> [[x]] | w # ws \<Rightarrow> (x # w) # ws))"

definition is_space :: "char \<Rightarrow> bool" where
  "is_space c \<longleftrightarrow>
     ((9::nat) \<le> of_char c \<and> of_char c \<le> (13::nat))
     \<or> ((28::nat) \<le> of_char c \<and> of_char c \<le> (32::nat))"

definition strip :: "string \<Rightarrow> string" where
  "strip s = rev (dropWhile is_space (rev (dropWhile is_space s)))"

definition all_settings :: "settings \<Rightarrow> bool" where
  "all_settings s \<longleftrightarrow>
     truthy_str (SMTP_HOST s) \<and> truthy_int (SMTP_PORT s) \<and> truthy_str (SMTP_USER s)
     \<and> truthy_str (SMTP_PASS s) \<and> truthy_str (EMAIL_FROM s) \<and> truthy_str (EMAIL_TO s)"

text \<open>
  Lines 152 to 171 of \<open>main\<close>: what is done with the built report. The result is the list
  of outside effects, in order, and the exit code or the exception that ends the run.
  Writing the file and printing are taken to succeed.
\<close>

definition deliver ::
  "bool \<Rightarrow> settings \<Rightarrow> transport \<Rightarrow> string \<Rightarrow> string \<Rightarrow> string \<Rightarrow> effect list \<times> (error + int)" where
  "deliver dry_run s smtp executed_at body_text csv_buf =
     (if dry_run then ([WriteCsv csv_buf, Print body_text], Inr 0)
      else if \<not> all_settings s then ([Print body_text], Inr 2)
      else
        let msg = \<lparr>subject = ''Gaps Forex - '' @ executed_at,
                   body = body_text,
                   csv_content = csv_buf,
                   smtp_host = the (SMTP_HOST s),
                   smtp_port = the (SMTP_PORT s),
                   smtp_user = the (SMTP_USER s),
                   smtp_pass = the (SMTP_PASS s),
                   email_from = the (EMAIL_FROM s),
                   email_to_list = map strip (split_on CHR '','' (the (EMAIL_TO s)))\<rparr>
        in (case smtp msg of
              Some e \<Rightarrow> ([SendEmail msg], Inl e)
            | None \<Rightarrow> ([SendEmail msg], Inr 0)))"

record args =
  arg_dry_run :: bool
  arg_pairs :: "string option"

text \<open>
  Lines 109 to 111: the tickers of the run are those of \<open>--pairs\<close> when given and not
  empty, split at commas, stripped, empty pieces dropped; else \<open>PAIRS\<close>, the list of
  the configuration file.
\<close>

definition selected_pairs :: "string list \<Rightarrow> args \<Rightarrow> string list" where
  "selected_pairs PAIRS a =
     (if truthy_str (arg_pairs a)
      then filter (\<lambda>p. p \<noteq> []) (map strip (split_on CHR '','' (the (arg_pairs a))))
      else PAIRS)"

text \<open>
  \<open>main\<close>. \<open>render\<close> and \<open>to_csv\<close> are the text of the report (the lines joined into
  \<open>body\<close>) and \<open>report_df.to_csv\<close>. An exception of \<open>build_report\<close> is not caught:
  it ends the run before any output.
\<close>

definition main ::
  "tzinfo \<Rightarrow> provider \<Rightarrow> sorter \<Rightarrow> (string \<Rightarrow> row list \<Rightarrow> string) \<Rightarrow> (row list \<Rightarrow> string)
     \<Rightarrow> transport \<Rightarrow> string \<Rightarrow> string list \<Rightarrow> settings \<Rightarrow> args
     \<Rightarrow> effect list \<times> (error + int)" where
  "main tz yf sort_values render to_csv smtp executed_at PAIRS s a =
     (let pairs = selected_pairs PAIRS a;
          rows = collect_rows tz yf pairs []
      in case build_report sort_values rows of
           Inl e \<Rightarrow> ([], Inl e)
         | Inr report_df \<Rightarrow>
             deliver (arg_dry_run a) s smtp executed_at
               (render executed_at report_df) (to_csv report_df))"

subsection \<open>Auxiliary notions used in the statements\<close>

text \<open>How many bars of a series carry the timestamp \<open>t\<close>.\<close>

definition count_ts :: "int \<Rightarrow> bar list \<Rightarrow> nat" where
  "count_ts t xs = length (filter (\<lambda>b. ts b = t) xs)"

text \<open>The bar that the Sunday step looks for.\<close>

definition selected_sunday :: "tzinfo \<Rightarrow> bar list \<Rightarrow> bar \<Rightarrow> bool" where
  "selected_sunday tz xs s \<longleftrightarrow>
     (if list_ex (is_sunday_candidate tz) xs
      then is_sunday_candidate tz s \<and> list_all (\<lambda>b. is_sunday_candidate tz b \<longrightarrow> ts s \<le> ts b) xs
      else is_sunday tz s \<and> list_all (\<lambda>b. is_sunday tz b \<longrightarrow> ts s \<le> ts b) xs)"

subsection \<open>Example data\<close>

text \<open>
  Hourly bars of the first weekend of January 2024, in seconds since the epoch:
  Friday 5 January 21:00 and 22:00 Paris time, Sunday 7 January 11:00, 22:00 and 23:00.
\<close>

definition fri_early :: bar where
  "fri_early = \<lparr>ts = 1704484800, Open = 99, Close = 99.5\<rparr>"
definition fri_last :: bar where
  "fri_last = \<lparr>ts = 1704488400, Open = 99.5, Close = 100\<rparr>"
definition fri_last_again :: bar where
  "fri_last_again = \<lparr>ts = 1704488400, Open = 99.5, Close = 100.25\<rparr>"
definition sun_early :: bar where
  "sun_early = \<lparr>ts = 1704621600, Open = 98, Close = 98.5\<rparr>"
definition sun_reopen :: bar where
  "sun_reopen = \<lparr>ts = 1704661200, Open = 101.5, Close = 101.75\<rparr>"
definition sun_reopen_again :: bar where
  "sun_reopen_again = \<lparr>ts = 1704661200, Open = 101.25, Close = 101.75\<rparr>"
definition sun_next :: bar where
  "sun_next = \<lparr>ts = 1704664800, Open = 101.75, Close = 102\<rparr>"

definition week_frame :: frame where
  "week_frame = \<lparr>has_Open = True, bars = [sun_next, fri_early, sun_early, fri_last, sun_reopen]\<rparr>"
definition fallback_frame :: frame where
  "fallback_frame = \<lparr>has_Open = True, bars = [fri_early, fri_last, sun_early]\<rparr>"
definition friday_only_frame :: frame where
  "friday_only_frame = \<lparr>has_Open = True, bars = [fri_early, fri_last]\<rparr>"
definition sunday_only_frame :: frame where
  "sunday_only_frame = \<lparr>has_Open = True, bars = [sun_early, sun_reopen]\<rparr>"
definition dup_friday_frame :: frame where
  "dup_friday_frame = \<lparr>has_Open = True, bars = [fri_early, fri_last, fri_last_again, sun_reopen]\<rparr>"
definition dup_sunday_frame :: frame where
  "dup_sunday_frame = \<lparr>has_Open = True, bars = [fri_last, sun_reopen, sun_reopen_again, sun_next]\<rparr>"
definition dup_elsewhere_frame :: frame where
  "dup_elsewhere_frame = \<lparr>has_Open = True, bars = [fri_early, fri_early, fri_last, sun_reopen, sun_next, sun_next]\<rparr>"

definition serving :: "frame \<Rightarrow> provider" where
  "serving df = (\<lambda>ticker. Inr df)"

text \<open>
  A provider answering three tickers differently: a good week, a frame whose last Friday
  timestamp occurs twice, and an exception.
\<close>

definition failing :: "error \<Rightarrow> provider" where
  "failing e = (\<lambda>ticker. Inl e)"

definition yf_mixed :: provider where
  "yf_mixed ticker =
     (if ticker = ''EURUSD=X'' then Inr week_frame
      else if ticker = ''GBPUSD=X'' then Inr dup_friday_frame
      else Inl (OtherError ''No data found''))"

definition absent_row :: "string \<Rightarrow> string \<Rightarrow> row" where
  "absent_row ticker text =
     \<lparr>pair = ticker, friday_time = None, friday_close = None, sunday_time = None,
      sunday_open = None, gap_pct = None, row_note = Some text\<rparr>"

definition week_row :: row where
  "week_row = \<lparr>pair = ''EURUSD=X'', friday_time = Some 1704488400, friday_close = Some 100,
      sunday_time = Some 1704661200, sunday_open = Some 101.5, gap_pct = Some 1.5,
      row_note = None\<rparr>"

text \<open>Rows for the report: two with gaps of equal magnitude, and rows that only carry a gap.\<close>

definition tie_first :: row where
  "tie_first = \<lparr>pair = ''EURUSD=X'', friday_time = Some 1704488400, friday_close = Some 100,
      sunday_time = Some 1704661200, sunday_open = Some 101, gap_pct = Some 1,
      row_note = None\<rparr>"

definition tie_second :: row where
  "tie_second = \<lparr>pair = ''GBPUSD=X'', friday_time = Some 1704488400, friday_close = Some 100,
      sunday_time = Some 1704661200, sunday_open = Some 99, gap_pct = Some (- 1),
      row_note = None\<rparr>"

definition gap_row :: "string \<Rightarrow> real option \<Rightarrow> row" where
  "gap_row ticker g = \<lparr>pair = ticker, friday_time = None, friday_close = None,
      sunday_time = None, sunday_open = None, gap_pct = g, row_note = None\<rparr>"

definition example_rows :: "row list" where
  "example_rows = [gap_row ''A'' (Some 2), gap_row ''B'' None, gap_row ''C'' (Some (- 5)),
      gap_row ''D'' (Some 1)]"

text \<open>Two environments: one without \<open>SMTP_PORT\<close>, one without \<open>EMAIL_FROM\<close>.\<close>

definition env_no_port :: environ where
  "env_no_port = map_of
     [(''SMTP_HOST'', ''smtp.example.org''), (''SMTP_USER'', ''bot''),
      (''SMTP_PASS'', ''secret''), (''EMAIL_FROM'', ''bot@example.org''),
      (''EMAIL_TO'', ''a@example.org, b@example.org'')]"

definition env_port_no_sender :: environ where
  "env_port_no_sender = map_of
     [(''SMTP_HOST'', ''smtp.example.org''), (''SMTP_PORT'', ''2525''), (''SMTP_USER'', ''bot''),
      (''SMTP_PASS'', ''secret''), (''EMAIL_TO'', ''a@example.org, b@example.org'')]"

definition settings_no_port :: settings where
  "settings_no_port =
     \<lparr>SMTP_HOST = Some ''smtp.example.org'', SMTP_PORT = None, SMTP_USER = Some ''bot'',
      SMTP_PASS = Some ''secret'', EMAIL_FROM = Some ''bot@example.org'',
      EMAIL_TO = Some ''a@example.org, b@example.org''\<rparr>"

definition settings_port_no_sender :: settings where
  "settings_port_no_sender =
     \<lparr>SMTP_HOST = Some ''smtp.example.org'', SMTP_PORT = Some 2525, SMTP_USER = Some ''bot'',
      SMTP_PASS = Some ''secret'', EMAIL_FROM = Some ''bot'',
      EMAIL_TO = Some ''a@example.org, b@example.org''\<rparr>"

definition accepting :: transport where
  "accepting = (\<lambda>msg. None)"

section \<open>Facts\<close>

lemmas bar_defs = fri_early_def fri_last_def fri_last_again_def sun_early_def sun_reopen_def
  sun_reopen_again_def sun_next_def
lemmas frame_defs = week_frame_def fallback_frame_def friday_only_frame_def
  sunday_only_frame_def dup_friday_frame_def dup_sunday_frame_def dup_elsewhere_frame_def
lemmas time_defs = is_friday_def is_sunday_def is_sunday_candidate_def weekday_def hour_def
  local_seconds_def CET_def
lemmas locate_defs = get_friday_close_and_sunday_open_def yf_download_safe_def serving_def
  loc_float_def open_column_def Let_def

lemmas row_defs = process_ticker_def error_row_def absent_row_def gap_calc_def truediv_def
  week_row_def

lemmas settings_defs = load_settings_def truthy_str_def truthy_int_def all_settings_def
  deliver_def decimal_int_def is_digit_def digit_of_def env_no_port_def
  env_port_no_sender_def settings_no_port_def settings_port_no_sender_def accepting_def

subsection \<open>The lookup and the sort of the index\<close>

lemma loc_float_sort_key [simp]: "loc_float (sort_key ts xs) t col = loc_float xs t col"
  by (simp add: loc_float_def sort_key_stable)

lemma filter_sort_key_empty [simp]: "(filter P (sort_key f xs) = []) = (filter P xs = [])"
  by (simp add: filter_empty_conv)

lemma filter_friday_same_ts:
  "is_friday tz f \<Longrightarrow>
     filter (\<lambda>b. ts b = ts f) (filter (is_friday tz) xs) = filter (\<lambda>b. ts b = ts f) xs"
  by (induction xs) (auto simp: is_friday_def)

lemma loc_float_friday_rows:
  "is_friday tz f \<Longrightarrow>
     loc_float (filter (is_friday tz) (sort_key ts xs)) (ts f) col = loc_float xs (ts f) col"
proof -
  assume fr: "is_friday tz f"
  have "filter (\<lambda>b. ts b = ts f) (filter (is_friday tz) (sort_key ts xs))
        = filter (is_friday tz) (filter (\<lambda>b. ts b = ts f) (sort_key ts xs))"
    by (simp add: conj_commute)
  also have "\<dots> = filter (is_friday tz) (filter (\<lambda>b. ts b = ts f) xs)"
    by (simp only: sort_key_stable)
  also have "\<dots> = filter (\<lambda>b. ts b = ts f) (filter (is_friday tz) xs)"
    by (simp add: conj_commute)
  also have "\<dots> = filter (\<lambda>b. ts b = ts f) xs"
    using fr by (rule filter_friday_same_ts)
  finally show ?thesis by (simp only: loc_float_def)
qed

lemma loc_float_many:
  "2 \<le> count_ts t xs \<Longrightarrow> loc_float xs t col = Inl (TypeError cannot_convert)"
  unfolding count_ts_def loc_float_def
  by (cases "filter (\<lambda>b. ts b = t) xs") (auto split: list.splits)

lemma loc_float_one:
  assumes "count_ts (ts b) xs = 1" and "b \<in> set xs"
  shows "loc_float xs (ts b) col = Inr (col b)"
proof -
  have "b \<in> set (filter (\<lambda>x. ts x = ts b) xs)" using assms(2) by simp
  moreover obtain c where "filter (\<lambda>x. ts x = ts b) xs = [c]"
    using assms(1) unfolding count_ts_def by (auto simp: length_Suc_conv)
  ultimately have "filter (\<lambda>x. ts x = ts b) xs = [b]" by simp
  then show ?thesis by (simp add: loc_float_def)
qed

lemma count_ts_distinct:
  "distinct (map ts xs) \<Longrightarrow> b \<in> set xs \<Longrightarrow> count_ts (ts b) xs = 1"
  unfolding count_ts_def by (induction xs) (auto simp: filter_empty_conv image_iff)

lemma Max_friday:
  assumes "f \<in> set xs" and "is_friday tz f"
    and "\<forall>b \<in> set xs. is_friday tz b \<longrightarrow> ts b \<le> ts f"
  shows "Max (set (map ts (filter (is_friday tz) (sort_key ts xs)))) = ts f"
  using assms by (intro Max_eqI) auto

lemma Min_picked:
  assumes "s \<in> set xs" and "P s" and "\<forall>b \<in> set xs. P b \<longrightarrow> ts s \<le> ts b"
  shows "Min (set (map ts (filter P (sort_key ts xs)))) = ts s"
  using assms by (intro Min_eqI) auto

lemma exists_latest:
  assumes "\<exists>b \<in> set xs. P b"
  shows "\<exists>f \<in> set xs. P f \<and> (\<forall>b \<in> set xs. P b \<longrightarrow> ts b \<le> ts f)"
proof -
  let ?S = "ts ` {b \<in> set xs. P b}"
  have fin: "finite ?S" by simp
  have ne: "?S \<noteq> {}" using assms by blast
  from Max_in[OF fin ne] obtain f where f: "f \<in> set xs" "P f" "ts f = Max ?S"
    by (auto simp: image_iff)
  have "ts b \<le> ts f" if "b \<in> set xs" "P b" for b
  proof -
    have "ts b \<in> ?S" using that by blast
    then show ?thesis using Max_ge[OF fin] f(3) by simp
  qed
  with f(1,2) show ?thesis by blast
qed

lemma exists_earliest:
  assumes "\<exists>b \<in> set xs. P b"
  shows "\<exists>s \<in> set xs. P s \<and> (\<forall>b \<in> set xs. P b \<longrightarrow> ts s \<le> ts b)"
proof -
  let ?S = "ts ` {b \<in> set xs. P b}"
  have fin: "finite ?S" by simp
  have ne: "?S \<noteq> {}" using assms by blast
  from Min_in[OF fin ne] obtain s where s: "s \<in> set xs" "P s" "ts s = Min ?S"
    by (auto simp: image_iff)
  have "ts s \<le> ts b" if "b \<in> set xs" "P b" for b
  proof -
    have "ts b \<in> ?S" using that by blast
    then show ?thesis using Min_le[OF fin] s(3) by simp
  qed
  with s(1,2) show ?thesis by blast
qed

lemma locate_friday_duplicate:
  assumes "yf ticker = Inr df" and "f \<in> set (bars df)" and "is_friday tz f"
    and "\<forall>b \<in> set (bars df). is_friday tz b \<longrightarrow> ts b \<le> ts f"
    and "2 \<le> count_ts (ts f) (bars df)"
  shows "get_friday_close_and_sunday_open tz yf ticker = Inl (TypeError cannot_convert)"
proof -
  have ne: "bars df \<noteq> []" "filter (is_friday tz) (bars df) \<noteq> []"
    using assms(2,3) by (auto simp: filter_empty_conv)
  have mx: "Max (set (map ts (filter (is_friday tz) (sort_key ts (bars df))))) = ts f"
    using assms(2-4) by (rule Max_friday)
  have "loc_float (filter (is_friday tz) (sort_key ts (bars df))) (ts f) Close
        = Inl (TypeError cannot_convert)"
    using assms(3,5) by (simp add: loc_float_friday_rows loc_float_many)
  then show ?thesis
    using assms(1) ne mx
    by (simp add: get_friday_close_and_sunday_open_def yf_download_safe_def Let_def)
qed

lemma locate_friday_only:
  assumes "yf ticker = Inr df" and "f \<in> set (bars df)" and "is_friday tz f"
    and "\<forall>b \<in> set (bars df). is_friday tz b \<longrightarrow> ts b \<le> ts f"
    and "count_ts (ts f) (bars df) = 1"
    and "\<forall>b \<in> set (bars df). \<not> is_sunday tz b"
  shows "get_friday_close_and_sunday_open tz yf ticker
         = Inr (Some (ts f), Some (Close f), None, None)"
proof -
  have ne: "bars df \<noteq> []" "filter (is_friday tz) (bars df) \<noteq> []"
    using assms(2,3) by (auto simp: filter_empty_conv)
  have mx: "Max (set (map ts (filter (is_friday tz) (sort_key ts (bars df))))) = ts f"
    using assms(2-4) by (rule Max_friday)
  have fc: "loc_float (filter (is_friday tz) (sort_key ts (bars df))) (ts f) Close
        = Inr (Close f)"
    using assms(2,3,5) by (simp add: loc_float_friday_rows loc_float_one)
  have no: "filter (is_sunday tz) (bars df) = []"
       "filter (is_sunday_candidate tz) (bars df) = []"
    using assms(6) by (auto simp: filter_empty_conv is_sunday_def is_sunday_candidate_def)
  show ?thesis
    using assms(1) ne mx fc no
    by (simp add: get_friday_close_and_sunday_open_def yf_download_safe_def Let_def)
qed

lemma locate_sunday:
  assumes "yf ticker = Inr df" and "f \<in> set (bars df)" and "is_friday tz f"
    and "\<forall>b \<in> set (bars df). is_friday tz b \<longrightarrow> ts b \<le> ts f"
    and "count_ts (ts f) (bars df) = 1"
    and "s \<in> set (bars df)" and "selected_sunday tz (bars df) s"
  shows "get_friday_close_and_sunday_open tz yf ticker =
           (if 2 \<le> count_ts (ts s) (bars df) then Inl (TypeError cannot_convert)
            else Inr (Some (ts f), Some (Close f), Some (ts s), Some (open_column df s)))"
proof -
  have df0: "yf_download_safe yf ticker = df"
    using assms(1) by (simp add: yf_download_safe_def)
  have ne: "bars df \<noteq> []" "filter (is_friday tz) (bars df) \<noteq> []"
    using assms(2,3) by (auto simp: filter_empty_conv)
  have mx: "Max (set (map ts (filter (is_friday tz) (sort_key ts (bars df))))) = ts f"
    using assms(2-4) by (rule Max_friday)
  have fc: "loc_float (filter (is_friday tz) (sort_key ts (bars df))) (ts f) Close
        = Inr (Close f)"
    using assms(2,3,5) by (simp add: loc_float_friday_rows loc_float_one)
  have cnt: "count_ts (ts s) (bars df) \<noteq> 0"
    using assms(6) unfolding count_ts_def by (auto simp: filter_empty_conv)
  have so: "loc_float (bars df) (ts s) (open_column df) =
           (if 2 \<le> count_ts (ts s) (bars df) then Inl (TypeError cannot_convert)
            else Inr (open_column df s))"
  proof (cases "2 \<le> count_ts (ts s) (bars df)")
    case True
    then show ?thesis by (simp add: loc_float_many)
  next
    case False
    with cnt have "count_ts (ts s) (bars df) = 1" by arith
    with False assms(6) show ?thesis by (simp add: loc_float_one)
  qed
  have pick: "(if filter (is_sunday_candidate tz) (bars df) = []
               then Min (set (map ts (filter (is_sunday tz) (sort_key ts (bars df)))))
               else Min (set (map ts (filter (is_sunday_candidate tz) (sort_key ts (bars df))))))
              = ts s"
       and sun: "filter (is_sunday_candidate tz) (bars df) = []
                 \<Longrightarrow> filter (is_sunday tz) (bars df) \<noteq> []"
  proof -
    show "(if filter (is_sunday_candidate tz) (bars df) = []
               then Min (set (map ts (filter (is_sunday tz) (sort_key ts (bars df)))))
               else Min (set (map ts (filter (is_sunday_candidate tz) (sort_key ts (bars df))))))
              = ts s"
    proof (cases "list_ex (is_sunday_candidate tz) (bars df)")
      case True
      then have c: "filter (is_sunday_candidate tz) (bars df) \<noteq> []"
        by (auto simp: filter_empty_conv list_ex_iff)
      have "is_sunday_candidate tz s"
        and "\<forall>b \<in> set (bars df). is_sunday_candidate tz b \<longrightarrow> ts s \<le> ts b"
        using assms(7) True by (auto simp: selected_sunday_def list_all_iff)
      with assms(6) have "Min (set (map ts (filter (is_sunday_candidate tz)
                               (sort_key ts (bars df))))) = ts s"
        by (rule Min_picked)
      with c show ?thesis by simp
    next
      case False
      then have c: "filter (is_sunday_candidate tz) (bars df) = []"
        by (auto simp: filter_empty_conv list_ex_iff)
      have "is_sunday tz s"
        and "\<forall>b \<in> set (bars df). is_sunday tz b \<longrightarrow> ts s \<le> ts b"
        using assms(7) False by (auto simp: selected_sunday_def list_all_iff)
      with assms(6) have "Min (set (map ts (filter (is_sunday tz)
                               (sort_key ts (bars df))))) = ts s"
        by (rule Min_picked)
      with c show ?thesis by simp
    qed
  next
    assume c: "filter (is_sunday_candidate tz) (bars df) = []"
    then have "\<not> list_ex (is_sunday_candidate tz) (bars df)"
      by (auto simp: filter_empty_conv list_ex_iff)
    then have "is_sunday tz s"
      using assms(7) by (simp add: selected_sunday_def)
    with assms(6) show "filter (is_sunday tz) (bars df) \<noteq> []"
      by (auto simp: filter_empty_conv)
  qed
  show ?thesis
  proof (cases "filter (is_sunday_candidate tz) (bars df) = []")
    case True
    note c = True and c' = sun[OF True]
    have mn: "Min (set (map ts (filter (is_sunday tz) (sort_key ts (bars df))))) = ts s"
      using pick c by simp
    show ?thesis
      unfolding get_friday_close_and_sunday_open_def Let_def df0
      apply (simp only: ne mx fc c c' mn filter_sort_key_empty loc_float_sort_key
                simp_thms if_False if_True sum.case)
      apply (simp only: so)
      apply (simp split: if_splits)
      done
  next
    case False
    note c = False
    have mn: "Min (set (map ts (filter (is_sunday_candidate tz) (sort_key ts (bars df))))) = ts s"
      using pick c by simp
    show ?thesis
      unfolding get_friday_close_and_sunday_open_def Let_def df0
      apply (simp only: ne mx fc c mn filter_sort_key_empty loc_float_sort_key
                simp_thms if_False if_True sum.case)
      apply (simp only: so)
      apply (simp split: if_splits)
      done
  qed
qed

lemma loc_float_mset:
  assumes "mset xs = mset ys"
  shows "loc_float xs t col = loc_float ys t col"
proof -
  let ?fx = "filter (\<lambda>b. ts b = t) xs" and ?fy = "filter (\<lambda>b. ts b = t) ys"
  have m: "mset ?fx = mset ?fy" by (simp only: mset_filter assms)
  then have len: "length ?fx = length ?fy" by (rule mset_eq_length)
  show ?thesis
  proof (cases ?fx)
    case Nil
    with m have "?fy = []" by simp
    with Nil show ?thesis by (simp add: loc_float_def)
  next
    case (Cons b bs)
    show ?thesis
    proof (cases bs)
      case Nil
      with Cons m have "mset ?fy = {#b#}" by simp
      then have "?fy = [b]" by (simp only: mset_single_iff)
      with Cons Nil show ?thesis by (simp add: loc_float_def)
    next
      case (Cons c cs)
      with \<open>?fx = b # bs\<close> len obtain b' c' cs' where "?fy = b' # c' # cs'"
        by (cases ?fy; cases "tl ?fy") auto
      with Cons \<open>?fx = b # bs\<close> show ?thesis by (simp add: loc_float_def)
    qed
  qed
qed

lemma locate_order_independent:
  assumes "yf ticker = Inr df" and "yf' ticker' = Inr df'"
    and "mset (bars df') = mset (bars df)" and "has_Open df' = has_Open df"
  shows "get_friday_close_and_sunday_open tz yf' ticker'
         = get_friday_close_and_sunday_open tz yf ticker"
proof -
  have df0: "yf_download_safe yf ticker = df" "yf_download_safe yf' ticker' = df'"
    using assms(1,2) by (simp_all add: yf_download_safe_def)
  have st: "set (bars df') = set (bars df)"
    using assms(3) by (rule mset_eq_setD)
  have e: "(bars df' = []) = (bars df = [])"
    using assms(3) by (metis mset_zero_iff)
  have a: "(filter P (sort_key ts (bars df')) = []) = (filter P (sort_key ts (bars df)) = [])" for P
    by (simp add: filter_empty_conv st)
  have b: "set (map ts (filter P (sort_key ts (bars df'))))
           = set (map ts (filter P (sort_key ts (bars df))))" for P
    by (simp add: st)
  have c: "loc_float (filter P (sort_key ts (bars df'))) t col
           = loc_float (filter P (sort_key ts (bars df))) t col" for P t col
    by (rule loc_float_mset) (simp add: assms(3))
  have d: "loc_float (sort_key ts (bars df')) t col
           = loc_float (sort_key ts (bars df)) t col" for t col
    by (rule loc_float_mset) (simp add: assms(3))
  have f: "open_column df' = open_column df"
    using assms(4) by (simp add: open_column_def)
  show ?thesis
    unfolding get_friday_close_and_sunday_open_def Let_def df0
    by (simp only: a b c d e f)
qed

lemma gap_calc_Inr: "\<exists>g. gap_calc f_close s_open = Inr g"
  by (simp add: gap_calc_def truediv_def split: option.splits)

lemma locate_shapes:
  assumes "get_friday_close_and_sunday_open tz yf ticker = Inr (a, b, c, d)"
  shows "(a = None \<and> b = None \<and> c = None \<and> d = None)
       \<or> (a \<noteq> None \<and> b \<noteq> None \<and> c = None \<and> d = None)
       \<or> (a \<noteq> None \<and> b \<noteq> None \<and> c \<noteq> None \<and> d \<noteq> None)"
  using assms unfolding get_friday_close_and_sunday_open_def Let_def
  by (auto split: if_splits sum.splits)

lemma locate_empty:
  "bars (yf_download_safe yf ticker) = [] \<Longrightarrow>
     get_friday_close_and_sunday_open tz yf ticker = Inr (None, None, None, None)"
  by (simp add: get_friday_close_and_sunday_open_def)

lemma process_ticker_Inr:
  assumes "get_friday_close_and_sunday_open tz yf ticker = Inr (a, b, c, d)"
  shows "\<exists>g. gap_calc b d = Inr g \<and> process_ticker tz yf ticker =
     \<lparr>pair = ticker, friday_time = a, friday_close = b, sunday_time = c, sunday_open = d,
      gap_pct = g,
      row_note = (if d = None then Some ''no sunday open''
                  else if b = None then Some ''no friday data'' else None)\<rparr>"
proof -
  obtain g where g: "gap_calc b d = Inr g" using gap_calc_Inr by blast
  show ?thesis using assms g by (auto simp: process_ticker_def Let_def)
qed

lemma process_ticker_Inl:
  "get_friday_close_and_sunday_open tz yf ticker = Inl e \<Longrightarrow>
     process_ticker tz yf ticker = error_row ticker e"
  by (simp add: process_ticker_def)

section \<open>The claims\<close>

subsection \<open>The locator\<close>

text \<open>
  C4. A non-empty series with no bar on a local Friday gives a session pair with all four
  fields absent, whatever Sunday bars it holds: the missing Friday close ends the lookup.
\<close>

theorem no_friday_all_absent:
  assumes "yf ticker = Inr df" and "bars df \<noteq> []"
    and "\<forall>b \<in> set (bars df). weekday tz (ts b) \<noteq> 4"
  shows "get_friday_close_and_sunday_open tz yf ticker = Inr (None, None, None, None)"
proof -
  have "filter (is_friday tz) (sort_key ts (bars df)) = []"
    using assms(3) by (simp add: filter_empty_conv is_friday_def)
  then show ?thesis
    using assms(1,2)
    by (simp add: get_friday_close_and_sunday_open_def yf_download_safe_def Let_def)
qed

theorem no_friday_all_absent_witness:
  "get_friday_close_and_sunday_open CET (serving sunday_only_frame) ''EURUSD=X''
     = Inr (None, None, None, None)"
proof -
  have h1: "serving sunday_only_frame ''EURUSD=X'' = Inr sunday_only_frame"
    by (simp add: serving_def)
  have h2: "bars sunday_only_frame \<noteq> []"
    by (simp add: sunday_only_frame_def)
  have h3: "\<forall>b \<in> set (bars sunday_only_frame). weekday CET (ts b) \<noteq> 4"
    by (simp add: sunday_only_frame_def bar_defs time_defs)
  from no_friday_all_absent[where yf = "serving sunday_only_frame" and ticker = "''EURUSD=X''", OF h1 h2 h3]
  show ?thesis .
qed

text \<open>
  C5. In a series with pairwise distinct timestamps and at least one Friday bar, the Friday
  bar with the greatest timestamp gives the Friday time and close. If some Sunday bar has
  local hour at least 22, the earliest of those gives the Sunday time and its open
  (its close when the frame has no \<open>Open\<close> column); otherwise the earliest Sunday bar
  of any hour does; with no Sunday bar the Sunday fields are absent.
\<close>

theorem locate_selects:
  assumes "yf ticker = Inr df"
    and "distinct (map ts (bars df))"
    and "\<exists>b \<in> set (bars df). is_friday tz b"
  shows "\<exists>f \<in> set (bars df). is_friday tz f
           \<and> (\<forall>b \<in> set (bars df). is_friday tz b \<longrightarrow> ts b \<le> ts f)
           \<and> (if \<exists>b \<in> set (bars df). is_sunday_candidate tz b then
                 \<exists>s \<in> set (bars df). is_sunday_candidate tz s
                   \<and> (\<forall>b \<in> set (bars df). is_sunday_candidate tz b \<longrightarrow> ts s \<le> ts b)
                   \<and> get_friday_close_and_sunday_open tz yf ticker
                       = Inr (Some (ts f), Some (Close f), Some (ts s),
                              Some (if has_Open df then Open s else Close s))
               else if \<exists>b \<in> set (bars df). is_sunday tz b then
                 \<exists>s \<in> set (bars df). is_sunday tz s
                   \<and> (\<forall>b \<in> set (bars df). is_sunday tz b \<longrightarrow> ts s \<le> ts b)
                   \<and> get_friday_close_and_sunday_open tz yf ticker
                       = Inr (Some (ts f), Some (Close f), Some (ts s),
                              Some (if has_Open df then Open s else Close s))
               else get_friday_close_and_sunday_open tz yf ticker
                       = Inr (Some (ts f), Some (Close f), None, None))"
proof -
  let ?xs = "bars df"
  from exists_latest[OF assms(3)] obtain f where
    f: "f \<in> set ?xs" "is_friday tz f" "\<forall>b \<in> set ?xs. is_friday tz b \<longrightarrow> ts b \<le> ts f"
    by blast
  have cf: "count_ts (ts f) ?xs = 1"
    using assms(2) f(1) by (rule count_ts_distinct)
  have oc: "open_column df s = (if has_Open df then Open s else Close s)" for s
    by (simp add: open_column_def)
  show ?thesis
  proof (cases "\<exists>b \<in> set ?xs. is_sunday_candidate tz b")
    case True
    from exists_earliest[OF True] obtain s where
      s: "s \<in> set ?xs" "is_sunday_candidate tz s"
         "\<forall>b \<in> set ?xs. is_sunday_candidate tz b \<longrightarrow> ts s \<le> ts b"
      by blast
    have sel: "selected_sunday tz ?xs s"
      using True s(2,3) by (simp add: selected_sunday_def list_ex_iff list_all_iff)
    have cs: "count_ts (ts s) ?xs = 1"
      using assms(2) s(1) by (rule count_ts_distinct)
    have "get_friday_close_and_sunday_open tz yf ticker
            = Inr (Some (ts f), Some (Close f), Some (ts s),
                   Some (if has_Open df then Open s else Close s))"
      using locate_sunday[where yf = yf and ticker = ticker, OF assms(1) f(1) f(2) f(3) cf s(1) sel]
        cs oc by simp
    with f s True show ?thesis by auto
  next
    case noc: False
    show ?thesis
    proof (cases "\<exists>b \<in> set ?xs. is_sunday tz b")
      case True
      from exists_earliest[OF True] obtain s where
        s: "s \<in> set ?xs" "is_sunday tz s"
           "\<forall>b \<in> set ?xs. is_sunday tz b \<longrightarrow> ts s \<le> ts b"
        by blast
      have sel: "selected_sunday tz ?xs s"
        using noc s(2,3) by (simp add: selected_sunday_def list_ex_iff list_all_iff)
      have cs: "count_ts (ts s) ?xs = 1"
        using assms(2) s(1) by (rule count_ts_distinct)
      have "get_friday_close_and_sunday_open tz yf ticker
              = Inr (Some (ts f), Some (Close f), Some (ts s),
                     Some (if has_Open df then Open s else Close s))"
        using locate_sunday[where yf = yf and ticker = ticker, OF assms(1) f(1) f(2) f(3) cf s(1) sel]
        cs oc by simp
      with f s True noc show ?thesis by auto
    next
      case False
      then have "\<forall>b \<in> set ?xs. \<not> is_sunday tz b" by blast
      from locate_friday_only[where yf = yf and ticker = ticker, OF assms(1) f(1) f(2) f(3) cf this]
      show ?thesis using f noc False by auto
    qed
  qed
qed

theorem locate_selects_witness:
  "get_friday_close_and_sunday_open CET (serving week_frame) ''EURUSD=X''
     = Inr (Some 1704488400, Some 100, Some 1704661200, Some 101.5)
   \<and> get_friday_close_and_sunday_open CET (serving fallback_frame) ''EURUSD=X''
     = Inr (Some 1704488400, Some 100, Some 1704621600, Some 98)
   \<and> get_friday_close_and_sunday_open CET (serving friday_only_frame) ''EURUSD=X''
     = Inr (Some 1704488400, Some 100, None, None)"
proof -
  have a: "serving df ''EURUSD=X'' = Inr df" for df
    by (simp add: serving_def)
  have b: "distinct (map ts (bars week_frame))" "distinct (map ts (bars fallback_frame))"
    "distinct (map ts (bars friday_only_frame))"
    by (simp_all add: frame_defs bar_defs)
  have c: "\<exists>b \<in> set (bars week_frame). is_friday CET b"
    "\<exists>b \<in> set (bars fallback_frame). is_friday CET b"
    "\<exists>b \<in> set (bars friday_only_frame). is_friday CET b"
    by (simp_all add: frame_defs bar_defs time_defs)
  have "get_friday_close_and_sunday_open CET (serving week_frame) ''EURUSD=X''
     = Inr (Some 1704488400, Some 100, Some 1704661200, Some 101.5)"
    using locate_selects[where yf = "serving week_frame" and ticker = "''EURUSD=X''"
        and tz = CET, OF a b(1) c(1)]
    by (simp add: frame_defs bar_defs time_defs)
  moreover have "get_friday_close_and_sunday_open CET (serving fallback_frame) ''EURUSD=X''
     = Inr (Some 1704488400, Some 100, Some 1704621600, Some 98)"
    using locate_selects[where yf = "serving fallback_frame" and ticker = "''EURUSD=X''"
        and tz = CET, OF a b(2) c(2)]
    by (simp add: frame_defs bar_defs time_defs)
  moreover have "get_friday_close_and_sunday_open CET (serving friday_only_frame) ''EURUSD=X''
     = Inr (Some 1704488400, Some 100, None, None)"
    using locate_selects[where yf = "serving friday_only_frame" and ticker = "''EURUSD=X''"
        and tz = CET, OF a b(3) c(3)]
    by (simp add: frame_defs bar_defs time_defs)
  ultimately show ?thesis by simp
qed

text \<open>
  C7, as the code has it. Duplicate timestamps are not removed, and the result does not
  depend on the order of the bars. But no bar is picked among bars that share the selected
  timestamp: when the greatest Friday timestamp is carried by two bars or more,
  \<open>float\<close> of the looked-up closes raises TypeError, and likewise when the selected
  Sunday timestamp is carried by two bars or more. When each selected timestamp is
  carried by one bar, that bar is selected, whatever duplicates there are elsewhere.
\<close>

theorem duplicate_timestamps:
  assumes "yf ticker = Inr df" and "f \<in> set (bars df)" and "is_friday tz f"
    and "\<forall>b \<in> set (bars df). is_friday tz b \<longrightarrow> ts b \<le> ts f"
  shows "(2 \<le> count_ts (ts f) (bars df) \<longrightarrow>
            get_friday_close_and_sunday_open tz yf ticker = Inl (TypeError cannot_convert))
       \<and> (count_ts (ts f) (bars df) = 1 \<longrightarrow>
            (\<forall>s \<in> set (bars df). selected_sunday tz (bars df) s \<longrightarrow>
               get_friday_close_and_sunday_open tz yf ticker =
                 (if 2 \<le> count_ts (ts s) (bars df) then Inl (TypeError cannot_convert)
                  else Inr (Some (ts f), Some (Close f), Some (ts s),
                            Some (open_column df s)))))
       \<and> (\<forall>df' :: frame. mset (bars df') = mset (bars df) \<and> has_Open df' = has_Open df \<longrightarrow>
            get_friday_close_and_sunday_open tz (serving df') ticker
              = get_friday_close_and_sunday_open tz yf ticker)"
proof (intro conjI impI allI ballI)
  assume "2 \<le> count_ts (ts f) (bars df)"
  with assms show "get_friday_close_and_sunday_open tz yf ticker = Inl (TypeError cannot_convert)"
    by (rule locate_friday_duplicate[where yf = yf and ticker = ticker])
next
  fix s
  assume "count_ts (ts f) (bars df) = 1" "s \<in> set (bars df)" "selected_sunday tz (bars df) s"
  with assms show "get_friday_close_and_sunday_open tz yf ticker =
                 (if 2 \<le> count_ts (ts s) (bars df) then Inl (TypeError cannot_convert)
                  else Inr (Some (ts f), Some (Close f), Some (ts s),
                            Some (open_column df s)))"
    by (rule locate_sunday[where yf = yf and ticker = ticker])
next
  fix df' :: frame
  assume h: "mset (bars df') = mset (bars df) \<and> has_Open df' = has_Open df"
  have "serving df' ticker = Inr df'" by (simp add: serving_def)
  with assms(1) h show "get_friday_close_and_sunday_open tz (serving df') ticker
              = get_friday_close_and_sunday_open tz yf ticker"
    by (intro locate_order_independent[where df = df and df' = df']) auto
qed

theorem duplicate_timestamps_witness:
  "get_friday_close_and_sunday_open CET (serving dup_friday_frame) ''EURUSD=X''
     = Inl (TypeError cannot_convert)
   \<and> get_friday_close_and_sunday_open CET (serving dup_sunday_frame) ''EURUSD=X''
     = Inl (TypeError cannot_convert)
   \<and> get_friday_close_and_sunday_open CET (serving dup_elsewhere_frame) ''EURUSD=X''
     = Inr (Some 1704488400, Some 100, Some 1704661200, Some 101.5)"
proof -
  have a: "serving df ''EURUSD=X'' = Inr df" for df
    by (simp add: serving_def)
  have b: "fri_last \<in> set (bars dup_friday_frame)" "fri_last \<in> set (bars dup_sunday_frame)"
    "fri_last \<in> set (bars dup_elsewhere_frame)"
    by (simp_all add: frame_defs)
  have c: "is_friday CET fri_last"
    by (simp add: bar_defs time_defs)
  have d: "\<forall>b \<in> set (bars dup_friday_frame). is_friday CET b \<longrightarrow> ts b \<le> ts fri_last"
    "\<forall>b \<in> set (bars dup_sunday_frame). is_friday CET b \<longrightarrow> ts b \<le> ts fri_last"
    "\<forall>b \<in> set (bars dup_elsewhere_frame). is_friday CET b \<longrightarrow> ts b \<le> ts fri_last"
    by (simp_all add: frame_defs bar_defs time_defs)
  have "get_friday_close_and_sunday_open CET (serving dup_friday_frame) ''EURUSD=X''
     = Inl (TypeError cannot_convert)"
    using duplicate_timestamps[where yf = "serving dup_friday_frame" and ticker = "''EURUSD=X''"
        and tz = CET, OF a b(1) c d(1)]
    by (simp add: count_ts_def frame_defs bar_defs)
  moreover have "get_friday_close_and_sunday_open CET (serving dup_sunday_frame) ''EURUSD=X''
     = Inl (TypeError cannot_convert)"
    using duplicate_timestamps[where yf = "serving dup_sunday_frame" and ticker = "''EURUSD=X''"
        and tz = CET, OF a b(2) c d(2)]
    by (simp add: count_ts_def selected_sunday_def frame_defs bar_defs time_defs)
  moreover have "get_friday_close_and_sunday_open CET (serving dup_elsewhere_frame) ''EURUSD=X''
     = Inr (Some 1704488400, Some 100, Some 1704661200, Some 101.5)"
    using duplicate_timestamps[where yf = "serving dup_elsewhere_frame" and ticker = "''EURUSD=X''"
        and tz = CET, OF a b(3) c d(3)]
    by (simp add: count_ts_def selected_sunday_def open_column_def frame_defs bar_defs time_defs)
  ultimately show ?thesis by simp
qed

text \<open>
  The claim as the specification words it (the last-seen bar wins for the Friday maximum,
  the first-seen for the Sunday minimum) fails on two series, one with the last Friday
  timestamp twice, one with the first Sunday-evening timestamp twice: both raise.
\<close>

theorem duplicate_timestamps_counterexample:
  "get_friday_close_and_sunday_open CET (serving dup_friday_frame) ''EURUSD=X''
     = Inl (TypeError cannot_convert)
   \<and> get_friday_close_and_sunday_open CET (serving dup_sunday_frame) ''EURUSD=X''
     = Inl (TypeError cannot_convert)"
  by (simp add: locate_defs frame_defs bar_defs time_defs)

subsection \<open>The gap and the note\<close>

text \<open>
  C3. The gap is absent unless both prices are present and the Friday close is not zero;
  then it is \<open>(sunday_open - friday_close) / friday_close * 100\<close>. The computation
  never raises; a Friday close of zero gives an absent gap.
\<close>

theorem gap_calc_value:
  "gap_calc f_close s_open =
     Inr (case f_close of
            None \<Rightarrow> None
          | Some f \<Rightarrow>
              (case s_open of
                 None \<Rightarrow> None
               | Some s \<Rightarrow> if f \<noteq> 0 then Some ((s - f) / f * 100) else None))
   \<and> gap_calc (Some 0) s_open = Inr None"
  by (simp add: gap_calc_def truediv_def split: option.splits)

theorem gap_calc_value_witness:
  "gap_calc (Some 100) (Some 101.5) = Inr (Some 1.5)
   \<and> gap_calc (Some 100) (Some 98) = Inr (Some (- 2))
   \<and> gap_calc (Some 0) (Some 98) = Inr None
   \<and> gap_calc None (Some 98) = Inr None
   \<and> gap_calc (Some 100) None = Inr None"
  using gap_calc_value[of "Some 100" "Some 101.5"] gap_calc_value[of "Some 100" "Some 98"]
    gap_calc_value[of "Some 0" "Some 98"] gap_calc_value[of None "Some 98"]
    gap_calc_value[of "Some 100" None]
  by simp

text \<open>
  C1, on the code. With an empty answer of the provider, or an exception of the provider
  (which \<open>yf_download_safe\<close> turns into an empty frame), the four fields are absent and
  the note is \<open>no sunday open\<close>: the second test of \<open>main\<close> overwrites the note of the
  first. No row ever carries the note \<open>no friday data\<close>.
\<close>

theorem empty_response_note:
  "process_ticker tz (serving empty_frame) ticker = absent_row ticker ''no sunday open''
   \<and> process_ticker tz (failing e) ticker = absent_row ticker ''no sunday open''
   \<and> row_note (process_ticker tz yf ticker) \<noteq> Some ''no friday data''"
proof (intro conjI)
  show "process_ticker tz (serving empty_frame) ticker = absent_row ticker ''no sunday open''"
    by (simp add: process_ticker_def locate_empty yf_download_safe_def serving_def
        empty_frame_def gap_calc_def absent_row_def)
  show "process_ticker tz (failing e) ticker = absent_row ticker ''no sunday open''"
    by (simp add: process_ticker_def locate_empty yf_download_safe_def failing_def
        empty_frame_def gap_calc_def absent_row_def)
  show "row_note (process_ticker tz yf ticker) \<noteq> Some ''no friday data''"
  proof (cases "get_friday_close_and_sunday_open tz yf ticker")
    case (Inl e)
    then show ?thesis by (simp add: process_ticker_Inl error_row_def)
  next
    case (Inr p)
    obtain a b c d where p: "p = (a, b, c, d)" by (cases p) auto
    from locate_shapes[OF Inr[unfolded p]] process_ticker_Inr[OF Inr[unfolded p]]
    show ?thesis by auto
  qed
qed

subsection \<open>The loop over the tickers\<close>

lemma collect_rows_map:
  "collect_rows tz yf pairs rows = rows @ map (process_ticker tz yf) pairs"
  by (induction pairs arbitrary: rows) simp_all

lemma process_ticker_pair: "pair (process_ticker tz yf ticker) = ticker"
proof (cases "get_friday_close_and_sunday_open tz yf ticker")
  case (Inl e)
  then show ?thesis by (simp add: process_ticker_Inl error_row_def)
next
  case (Inr p)
  obtain a b c d where p: "p = (a, b, c, d)" by (cases p) auto
  from process_ticker_Inr[OF Inr[unfolded p]] obtain g where
    "process_ticker tz yf ticker =
       \<lparr>pair = ticker, friday_time = a, friday_close = b, sunday_time = c, sunday_open = d,
        gap_pct = g,
        row_note = (if d = None then Some ''no sunday open''
                    else if b = None then Some ''no friday data'' else None)\<rparr>"
    by blast
  then show ?thesis by simp
qed

lemma locate_local:
  assumes "yf' ticker = yf ticker"
  shows "get_friday_close_and_sunday_open tz yf' ticker
         = get_friday_close_and_sunday_open tz yf ticker"
proof -
  have "yf_download_safe yf' ticker = yf_download_safe yf ticker"
    by (simp only: yf_download_safe_def assms)
  then show ?thesis by (simp only: get_friday_close_and_sunday_open_def)
qed

lemma process_ticker_local:
  assumes "yf' ticker = yf ticker"
  shows "process_ticker tz yf' ticker = process_ticker tz yf ticker"
  by (simp only: process_ticker_def locate_local[where yf' = yf' and yf = yf, OF assms])

lemma process_ticker_empty:
  "process_ticker tz (serving empty_frame) ticker = absent_row ticker ''no sunday open''"
  by (simp add: process_ticker_def locate_empty yf_download_safe_def serving_def
      empty_frame_def gap_calc_def absent_row_def)

lemma process_ticker_provider_raises:
  assumes "yf ticker = Inl e"
  shows "process_ticker tz yf ticker = process_ticker tz (serving empty_frame) ticker"
proof -
  have "yf_download_safe yf ticker = yf_download_safe (serving empty_frame) ticker"
    using assms by (simp add: yf_download_safe_def serving_def)
  then have "get_friday_close_and_sunday_open tz yf ticker
             = get_friday_close_and_sunday_open tz (serving empty_frame) ticker"
    by (simp only: get_friday_close_and_sunday_open_def)
  then show ?thesis by (simp only: process_ticker_def)
qed

text \<open>
  C6, as the code has it. The loop yields one row per requested ticker, in the order of
  the request, duplicates included, and the row of a ticker is the result of processing
  that ticker alone. When \<open>get_friday_close_and_sunday_open\<close> raises for a ticker, its
  row has the note \<open>error: \<close> followed by the message, and all other fields absent; the
  loop goes on. An exception of the provider is not such a failure: \<open>yf_download_safe\<close>
  catches it, and the ticker gets the row of an empty answer, with the prices and the gap
  absent and a note that is not an error note. The row of a ticker depends on the
  provider through its answer for that ticker only.
\<close>

theorem one_row_per_ticker:
  "length (collect_rows tz yf pairs []) = length pairs
   \<and> map pair (collect_rows tz yf pairs []) = pairs
   \<and> (\<forall>i < length pairs.
         collect_rows tz yf pairs [] ! i = process_ticker tz yf (pairs ! i)
         \<and> (\<forall>e. get_friday_close_and_sunday_open tz yf (pairs ! i) = Inl e \<longrightarrow>
               collect_rows tz yf pairs [] ! i =
                 \<lparr>pair = pairs ! i, friday_time = None, friday_close = None,
                  sunday_time = None, sunday_open = None, gap_pct = None,
                  row_note = Some (''error: '' @ message e)\<rparr>)
         \<and> (\<forall>e. yf (pairs ! i) = Inl e \<longrightarrow>
               collect_rows tz yf pairs [] ! i
                 = process_ticker tz (serving empty_frame) (pairs ! i)
               \<and> friday_close (collect_rows tz yf pairs [] ! i) = None
               \<and> sunday_open (collect_rows tz yf pairs [] ! i) = None
               \<and> gap_pct (collect_rows tz yf pairs [] ! i) = None
               \<and> (\<forall>m. row_note (collect_rows tz yf pairs [] ! i)
                     \<noteq> Some (''error: '' @ m)))
         \<and> (\<forall>yf'. yf' (pairs ! i) = yf (pairs ! i) \<longrightarrow>
               collect_rows tz yf' pairs [] ! i = collect_rows tz yf pairs [] ! i))"
proof (intro conjI allI impI)
  show "length (collect_rows tz yf pairs []) = length pairs"
    by (simp add: collect_rows_map)
  show "map pair (collect_rows tz yf pairs []) = pairs"
    by (simp add: collect_rows_map process_ticker_pair comp_def)
next
  fix i assume i: "i < length pairs"
  show "collect_rows tz yf pairs [] ! i = process_ticker tz yf (pairs ! i)"
    using i by (simp add: collect_rows_map)
next
  fix i e
  assume i: "i < length pairs"
    and e: "get_friday_close_and_sunday_open tz yf (pairs ! i) = Inl e"
  show "collect_rows tz yf pairs [] ! i =
          \<lparr>pair = pairs ! i, friday_time = None, friday_close = None,
           sunday_time = None, sunday_open = None, gap_pct = None,
           row_note = Some (''error: '' @ message e)\<rparr>"
    using i process_ticker_Inl[OF e] by (simp add: collect_rows_map error_row_def)
next
  fix i e
  assume i: "i < length pairs" and e: "yf (pairs ! i) = Inl e"
  have r: "collect_rows tz yf pairs [] ! i = absent_row (pairs ! i) ''no sunday open''"
    using i process_ticker_provider_raises[where yf = yf, OF e]
    by (simp add: collect_rows_map process_ticker_empty)
  show "collect_rows tz yf pairs [] ! i = process_ticker tz (serving empty_frame) (pairs ! i)"
    using r by (simp add: process_ticker_empty)
  show "friday_close (collect_rows tz yf pairs [] ! i) = None"
    using r by (simp add: absent_row_def)
  show "sunday_open (collect_rows tz yf pairs [] ! i) = None"
    using r by (simp add: absent_row_def)
  show "gap_pct (collect_rows tz yf pairs [] ! i) = None"
    using r by (simp add: absent_row_def)
  show "row_note (collect_rows tz yf pairs [] ! i) \<noteq> Some (''error: '' @ m)" for m
    using r by (simp add: absent_row_def)
next
  fix i yf'
  assume i: "i < length pairs" and h: "yf' (pairs ! i) = yf (pairs ! i)"
  show "collect_rows tz yf' pairs [] ! i = collect_rows tz yf pairs [] ! i"
    using i process_ticker_local[where yf' = yf' and yf = yf, OF h]
    by (simp add: collect_rows_map)
qed

theorem one_row_per_ticker_witness:
  "collect_rows CET yf_mixed [''EURUSD=X'', ''GBPUSD=X'', ''BADTICKER'', ''EURUSD=X''] []
     = [week_row,
        absent_row ''GBPUSD=X'' (''error: '' @ cannot_convert),
        process_ticker CET (serving empty_frame) ''BADTICKER'',
        week_row]"
proof -
  have e: "get_friday_close_and_sunday_open CET yf_mixed ''GBPUSD=X''
             = Inl (TypeError cannot_convert)"
    by (simp add: yf_mixed_def locate_defs frame_defs bar_defs time_defs)
  have w: "process_ticker CET yf_mixed ''EURUSD=X'' = week_row"
    by (simp add: yf_mixed_def row_defs locate_defs frame_defs bar_defs time_defs)
  have b: "yf_mixed ''BADTICKER'' = Inl (OtherError ''No data found'')"
    by (simp add: yf_mixed_def)
  let ?pairs = "[''EURUSD=X'', ''GBPUSD=X'', ''BADTICKER'', ''EURUSD=X'']"
  let ?rows = "collect_rows CET yf_mixed ?pairs []"
  note t = one_row_per_ticker[of CET yf_mixed ?pairs]
  note len = t[THEN conjunct1]
  note nth = t[THEN conjunct2, THEN conjunct2, rule_format]
  have r0: "?rows ! 0 = week_row"
    using nth[of 0, THEN conjunct1] w by simp
  have r1: "?rows ! 1 = absent_row ''GBPUSD=X'' (''error: '' @ cannot_convert)"
    using nth[of 1, THEN conjunct2, THEN conjunct1, rule_format, of "TypeError cannot_convert"] e
    by (simp add: absent_row_def)
  have r2: "?rows ! 2 = process_ticker CET (serving empty_frame) ''BADTICKER''"
    using nth[of 2, THEN conjunct2, THEN conjunct2, THEN conjunct1, rule_format,
        of "OtherError ''No data found''", THEN conjunct1] b
    by simp
  have r3: "?rows ! 3 = week_row"
    using nth[of 3, THEN conjunct1] w by simp
  have "?rows ! i = [week_row,
        absent_row ''GBPUSD=X'' (''error: '' @ cannot_convert),
        process_ticker CET (serving empty_frame) ''BADTICKER'',
        week_row] ! i" if "i < 4" for i
  proof -
    from that consider "i = 0" | "i = 1" | "i = 2" | "i = 3" by linarith
    then show ?thesis using r0 r1 r2 r3 by cases simp_all
  qed
  with len show ?thesis by (intro nth_equalityI) simp_all
qed

text \<open>
  The claim as the specification words it fails on the run of the specification's own
  scenario: the provider raises for the second ticker, and the row of that ticker carries
  no error note.
\<close>

theorem one_row_per_ticker_counterexample:
  "yf_mixed ''BADTICKER'' = Inl (OtherError ''No data found'')
   \<and> collect_rows CET yf_mixed [''EURUSD=X'', ''BADTICKER''] []
       = [week_row, absent_row ''BADTICKER'' ''no sunday open'']"
  by (simp add: yf_mixed_def row_defs locate_defs frame_defs bar_defs time_defs
      empty_frame_def)

subsection \<open>Rows that carry a gap\<close>

lemma process_ticker_gap:
  assumes "gap_pct (process_ticker tz yf ticker) = Some g"
  shows "\<exists>f s. friday_close (process_ticker tz yf ticker) = Some f
           \<and> sunday_open (process_ticker tz yf ticker) = Some s
           \<and> f \<noteq> 0 \<and> g = (s - f) / f * 100"
proof (cases "get_friday_close_and_sunday_open tz yf ticker")
  case (Inl e)
  with assms show ?thesis by (simp add: process_ticker_Inl error_row_def)
next
  case (Inr p)
  obtain a b c d where p: "p = (a, b, c, d)" by (cases p) auto
  from process_ticker_Inr[OF Inr[unfolded p]] obtain g' where
    g': "gap_calc b d = Inr g'" and
    r: "process_ticker tz yf ticker =
       \<lparr>pair = ticker, friday_time = a, friday_close = b, sunday_time = c, sunday_open = d,
        gap_pct = g',
        row_note = (if d = None then Some ''no sunday open''
                    else if b = None then Some ''no friday data'' else None)\<rparr>"
    by blast
  from assms r have "g' = Some g" by simp
  with g' have "gap_calc b d = Inr (Some g)" by simp
  then have "\<exists>f s. b = Some f \<and> d = Some s \<and> f \<noteq> 0 \<and> g = (s - f) / f * 100"
    by (cases b; cases d) (auto simp: gap_calc_def truediv_def split: if_splits)
  with r show ?thesis by simp
qed

subsection \<open>The report\<close>

lemma process_week: "process_ticker CET yf_mixed ''EURUSD=X'' = week_row"
  by (simp add: yf_mixed_def row_defs locate_defs frame_defs bar_defs time_defs)

lemma stable_descending_sorts: "sorts_descending stable_descending"
proof -
  have "sorted_wrt (\<lambda>a b. key a \<ge> key b) (sort_key (\<lambda>r. - key r) rows)"
    for key :: "row \<Rightarrow> real" and rows
    using sorted_sort_key[of "\<lambda>r. - key r" rows] by (simp add: sorted_map)
  then show ?thesis by (simp add: sorts_descending_def stable_descending_def)
qed

lemma nargsort_stable: "nargsort key rows = stable_descending key rows"
proof -
  let ?f = "\<lambda>r. - key r" and ?ys = "rev (sort_key key (rev rows))"
  have m: "mset ?ys = mset rows" by simp
  have s: "sorted (map ?f ?ys)"
  proof -
    have "sorted (map key (sort_key key (rev rows)))" by (rule sorted_sort_key)
    then have "sorted_wrt (\<lambda>a b. key a \<le> key b) (sort_key key (rev rows))"
      by (simp add: sorted_map)
    then have "sorted_wrt (\<lambda>a b. key b \<le> key a) ?ys"
      by (simp add: sorted_wrt_rev)
    then show ?thesis by (simp add: sorted_map)
  qed
  have f: "filter (\<lambda>x. ?f k = ?f x) ?ys = filter (\<lambda>x. ?f k = ?f x) rows" for k
  proof -
    have eq: "(\<lambda>x. ?f k = ?f x) = (\<lambda>x. key x = key k)" by auto
    have "filter (\<lambda>x. key x = key k) ?ys
          = rev (filter (\<lambda>x. key x = key k) (sort_key key (rev rows)))"
      by (simp add: rev_filter)
    also have "\<dots> = rev (filter (\<lambda>x. key x = key k) (rev rows))"
      by (simp only: sort_key_stable)
    also have "\<dots> = filter (\<lambda>x. key x = key k) rows"
      by (simp add: rev_filter)
    finally show ?thesis by (simp only: eq)
  qed
  from properties_for_sort_key[OF m f s] show ?thesis
    by (simp add: nargsort_def stable_descending_def)
qed

lemma nargsort_sorts: "sorts_descending nargsort"
  using stable_descending_sorts by (simp add: sorts_descending_def nargsort_stable)

lemma build_report_Inr:
  assumes "rows = [] \<or> (\<exists>r \<in> set rows. gap_pct r \<noteq> None)"
  shows "build_report sort_values rows = Inr (sort_values abs_gap rows)"
  using assms by (auto simp: build_report_def list_all_iff)

lemma build_report_Inl:
  assumes "rows \<noteq> []" and "\<forall>r \<in> set rows. gap_pct r = None"
  shows "build_report sort_values rows = Inl (TypeError bad_operand)"
  using assms by (simp add: build_report_def list_all_iff)

lemma build_report_mset:
  assumes "sorts_descending sort_values" and "build_report sort_values rows = Inr report"
  shows "mset report = mset rows"
  using assms by (auto simp: build_report_def sorts_descending_def split: if_splits)

text \<open>
  What \<open>build_report\<close> does when the rows are none or at least one of them has a gap:
  the report is built; it holds the same rows, each unchanged (an absent gap stays
  absent), in descending order of the absolute gap, an absent gap counting as 0 in the
  sort only; and rows of equal magnitude keep the order they had.
\<close>

lemma report_built:
  assumes "rows = [] \<or> (\<exists>r \<in> set rows. gap_pct r \<noteq> None)"
  shows "build_report nargsort rows = Inr (stable_descending abs_gap rows)"
  using build_report_Inr[OF assms, of nargsort] by (simp add: nargsort_stable)

lemma report_order:
  "mset (stable_descending abs_gap rows) = mset rows"
  "sorted_wrt (\<lambda>a b. abs_gap a \<ge> abs_gap b) (stable_descending abs_gap rows)"
  "filter (\<lambda>r. abs_gap r = m) (stable_descending abs_gap rows)
     = filter (\<lambda>r. abs_gap r = m) rows"
proof -
  show "mset (stable_descending abs_gap rows) = mset rows"
    by (simp add: stable_descending_def)
  show "sorted_wrt (\<lambda>a b. abs_gap a \<ge> abs_gap b) (stable_descending abs_gap rows)"
    using stable_descending_sorts by (simp add: sorts_descending_def)
  have eq: "(\<lambda>r. abs_gap r = m) = (\<lambda>r. - abs_gap r = - m)" by auto
  show "filter (\<lambda>r. abs_gap r = m) (stable_descending abs_gap rows)
          = filter (\<lambda>r. abs_gap r = m) rows"
    unfolding eq stable_descending_def by (rule sort_key_stable)
qed

lemma report_example:
  "build_report nargsort example_rows
     = Inr [gap_row ''C'' (Some (- 5)), gap_row ''A'' (Some 2), gap_row ''D'' (Some 1),
            gap_row ''B'' None]"
proof -
  have "example_rows = [] \<or> (\<exists>r \<in> set example_rows. gap_pct r \<noteq> None)"
    by (simp add: example_rows_def gap_row_def)
  from report_built[OF this] show ?thesis
    by (simp add: stable_descending_def example_rows_def gap_row_def abs_gap_def)
qed

lemma report_ties:
  "build_report nargsort [tie_first, tie_second] = Inr [tie_first, tie_second]"
  by (simp add: build_report_def nargsort_def tie_first_def tie_second_def abs_gap_def)

lemma process_ticker_failing:
  "process_ticker tz (failing e) ticker = absent_row ticker ''no sunday open''"
  by (simp add: process_ticker_def locate_empty yf_download_safe_def failing_def
      empty_frame_def gap_calc_def absent_row_def)

text \<open>
  C2, on the code. A sequence of rows that is not empty and whose gaps are all absent gives
  no report: the column of gaps holds only \<open>None\<close>, and \<open>.abs()\<close> raises TypeError
  before \<open>fillna(0)\<close>, written to count an absent gap as 0, is reached. So it is for one
  row without a gap, for the rows of any run in which the provider fails for every ticker,
  and \<open>main\<close> then ends with that exception and no output.
\<close>

theorem all_absent_report_raises:
  "build_report nargsort [absent_row ticker n] = Inl (TypeError bad_operand)
   \<and> build_report nargsort (collect_rows tz (failing e) (ticker # pairs) [])
       = Inl (TypeError bad_operand)
   \<and> main tz (failing e) nargsort render to_csv smtp executed_at (ticker # pairs) s
        \<lparr>arg_dry_run = dry_run, arg_pairs = None\<rparr>
       = ([], Inl (TypeError bad_operand))"
proof -
  have one: "build_report nargsort [absent_row ticker n] = Inl (TypeError bad_operand)"
    by (simp add: build_report_def absent_row_def)
  have rows: "collect_rows tz (failing e) (ticker # pairs) []
                = map (\<lambda>t. absent_row t ''no sunday open'') (ticker # pairs)"
    by (simp add: collect_rows_map process_ticker_failing)
  have all: "build_report nargsort (collect_rows tz (failing e) (ticker # pairs) [])
               = Inl (TypeError bad_operand)"
    unfolding rows by (rule build_report_Inl) (auto simp: absent_row_def)
  have "selected_pairs (ticker # pairs) \<lparr>arg_dry_run = dry_run, arg_pairs = None\<rparr>
          = ticker # pairs"
    by (simp add: selected_pairs_def truthy_str_def)
  with all have "main tz (failing e) nargsort render to_csv smtp executed_at (ticker # pairs) s
        \<lparr>arg_dry_run = dry_run, arg_pairs = None\<rparr>
       = ([], Inl (TypeError bad_operand))"
    by (simp add: main_def Let_def)
  with one all show ?thesis by simp
qed

text \<open>
  C10. A row that carries a gap carries both prices, the Friday close is not zero, and the
  gap is computed from them. This holds for the rows of the loop and for the rows of any
  report built from them.
\<close>

theorem gap_needs_prices:
  assumes "r \<in> set (collect_rows tz yf pairs [])
           \<or> (sorts_descending sort_values
               \<and> build_report sort_values (collect_rows tz yf pairs []) = Inr report
               \<and> r \<in> set report)"
    and "gap_pct r = Some g"
  shows "\<exists>f s. friday_close r = Some f \<and> sunday_open r = Some s \<and> f \<noteq> 0
           \<and> g = (s - f) / f * 100"
proof -
  have "set report = set (collect_rows tz yf pairs [])"
    if "sorts_descending sort_values"
      "build_report sort_values (collect_rows tz yf pairs []) = Inr report"
    using build_report_mset[OF that] by (rule mset_eq_setD)
  with assms(1) have "r \<in> set (collect_rows tz yf pairs [])" by blast
  then obtain ticker where "r = process_ticker tz yf ticker"
    by (auto simp: collect_rows_map)
  with assms(2) show ?thesis using process_ticker_gap by blast
qed

theorem gap_needs_prices_witness:
  "\<exists>f s. friday_close week_row = Some f \<and> sunday_open week_row = Some s \<and> f \<noteq> 0
         \<and> (1.5 :: real) = (s - f) / f * 100"
proof -
  have "week_row \<in> set (collect_rows CET yf_mixed [''EURUSD=X''] [])"
    by (simp add: process_week)
  moreover have "gap_pct week_row = Some 1.5"
    by (simp add: week_row_def)
  ultimately show ?thesis
    using gap_needs_prices[of week_row CET yf_mixed "[''EURUSD=X'']" stable_descending "[]" "1.5"]
    by blast
qed

subsection \<open>Mail settings and delivery\<close>

lemma missing_setting:
  assumes "SMTP_HOST s = None \<or> SMTP_PORT s = None \<or> SMTP_USER s = None
           \<or> SMTP_PASS s = None \<or> EMAIL_FROM s = None \<or> EMAIL_TO s = None"
  shows "\<not> all_settings s"
  using assms by (auto simp: all_settings_def truthy_str_def truthy_int_def)

lemma deliver_dry_run:
  "deliver True s smtp executed_at body_text csv_buf
     = ([WriteCsv csv_buf, Print body_text], Inr 0)"
  by (simp add: deliver_def)

lemma deliver_missing:
  "\<not> all_settings s \<Longrightarrow>
     deliver False s smtp executed_at body_text csv_buf = ([Print body_text], Inr 2)"
  by (simp add: deliver_def)

lemma main_no_send:
  assumes "arg_dry_run a \<or> \<not> all_settings s"
  shows "SendEmail msg
           \<notin> set (fst (main tz yf sort_values render to_csv smtp executed_at PAIRS s a))"
proof (cases "build_report sort_values (collect_rows tz yf (selected_pairs PAIRS a) [])")
  case (Inl e)
  then show ?thesis by (simp add: main_def Let_def)
next
  case (Inr report)
  show ?thesis
  proof (cases "arg_dry_run a")
    case True
    with Inr show ?thesis by (simp add: main_def Let_def deliver_dry_run)
  next
    case False
    with assms have "\<not> all_settings s" by simp
    with Inr False show ?thesis by (simp add: main_def Let_def deliver_missing)
  qed
qed

lemma main_missing:
  assumes "\<not> arg_dry_run a" and "\<not> all_settings s"
    and "build_report sort_values (collect_rows tz yf (selected_pairs PAIRS a) []) = Inr report"
  shows "main tz yf sort_values render to_csv smtp executed_at PAIRS s a
           = ([Print (render executed_at report)], Inr 2)"
  using assms by (simp add: main_def Let_def deliver_missing)

text \<open>
  C8. In dry-run mode the delivery step writes the file and prints the report, and no run
  of \<open>main\<close> in dry-run mode hands a message to the mail transport. In live mode, when
  any one of the six settings is unset, the delivery step prints the report and returns
  the exit code 2 without sending; so does \<open>main\<close> whenever it has a report to deliver.
\<close>

theorem delivery_gate:
  "deliver True s smtp executed_at body_text csv_buf
     = ([WriteCsv csv_buf, Print body_text], Inr 0)
   \<and> (arg_dry_run a \<longrightarrow>
        (\<forall>msg. SendEmail msg
           \<notin> set (fst (main tz yf sort_values render to_csv smtp executed_at PAIRS s a))))
   \<and> (SMTP_HOST s = None \<or> SMTP_PORT s = None \<or> SMTP_USER s = None
        \<or> SMTP_PASS s = None \<or> EMAIL_FROM s = None \<or> EMAIL_TO s = None \<longrightarrow>
        deliver False s smtp executed_at body_text csv_buf = ([Print body_text], Inr 2)
        \<and> (\<forall>msg. SendEmail msg
             \<notin> set (fst (main tz yf sort_values render to_csv smtp executed_at PAIRS s a)))
        \<and> (\<forall>report. \<not> arg_dry_run a
             \<and> build_report sort_values (collect_rows tz yf (selected_pairs PAIRS a) [])
                 = Inr report \<longrightarrow>
             main tz yf sort_values render to_csv smtp executed_at PAIRS s a
               = ([Print (render executed_at report)], Inr 2)))"
proof (intro conjI impI allI)
  show "deliver True s smtp executed_at body_text csv_buf
          = ([WriteCsv csv_buf, Print body_text], Inr 0)"
    by (rule deliver_dry_run)
next
  fix msg assume "arg_dry_run a"
  then show "SendEmail msg
          \<notin> set (fst (main tz yf sort_values render to_csv smtp executed_at PAIRS s a))"
    by (intro main_no_send) simp
next
  assume "SMTP_HOST s = None \<or> SMTP_PORT s = None \<or> SMTP_USER s = None
        \<or> SMTP_PASS s = None \<or> EMAIL_FROM s = None \<or> EMAIL_TO s = None"
  then have n: "\<not> all_settings s" by (rule missing_setting)
  then show "deliver False s smtp executed_at body_text csv_buf = ([Print body_text], Inr 2)"
    by (rule deliver_missing)
  show "SendEmail msg
          \<notin> set (fst (main tz yf sort_values render to_csv smtp executed_at PAIRS s a))"
    for msg
    using n by (intro main_no_send) simp
  show "main tz yf sort_values render to_csv smtp executed_at PAIRS s a
               = ([Print (render executed_at report)], Inr 2)"
    if "\<not> arg_dry_run a
             \<and> build_report sort_values (collect_rows tz yf (selected_pairs PAIRS a) [])
                 = Inr report"
    for report
    using that n by (intro main_missing) simp_all
qed

theorem delivery_gate_witness:
  "deliver True settings_no_port accepting ''now'' ''body'' ''csv''
     = ([WriteCsv ''csv'', Print ''body''], Inr 0)
   \<and> deliver False settings_no_port accepting ''now'' ''body'' ''csv''
     = ([Print ''body''], Inr 2)"
  using delivery_gate[where s = settings_no_port and smtp = accepting and executed_at = "''now''"
      and body_text = "''body''" and csv_buf = "''csv''"]
  by (simp add: settings_no_port_def)

text \<open>
  C9, as the code has it. When the variable \<open>SMTP_PORT\<close> is unset or empty, the port
  setting is absent: the literal 587 of line 30 is never used, and in live mode the report
  is printed and the exit code is 2, nothing being sent, whatever the other settings.
  When the variable is set, the port is its integer value. The sender is the variable
  \<open>EMAIL_FROM\<close>, or the user name when that variable is unset or empty.
\<close>

theorem port_has_no_default:
  "(\<not> truthy_str (env ''SMTP_PORT'') \<longrightarrow>
      (\<exists>s. load_settings to_int env = Inr s \<and> SMTP_PORT s = None
          \<and> deliver False s smtp executed_at body_text csv_buf = ([Print body_text], Inr 2)))
   \<and> (\<forall>p n. env ''SMTP_PORT'' = Some p \<and> p \<noteq> [] \<and> to_int p = Inr n \<longrightarrow>
        (\<exists>s. load_settings to_int env = Inr s \<and> SMTP_PORT s = Some n))
   \<and> (\<forall>s. load_settings to_int env = Inr s \<longrightarrow>
        EMAIL_FROM s = (if truthy_str (env ''EMAIL_FROM'') then env ''EMAIL_FROM''
                        else env ''SMTP_USER''))"
proof (intro conjI impI allI)
  assume h: "\<not> truthy_str (env ''SMTP_PORT'')"
  let ?s = "\<lparr>SMTP_HOST = env ''SMTP_HOST'', SMTP_PORT = None, SMTP_USER = env ''SMTP_USER'',
             SMTP_PASS = env ''SMTP_PASS'',
             EMAIL_FROM = (if truthy_str (env ''EMAIL_FROM'') then env ''EMAIL_FROM''
                           else env ''SMTP_USER''),
             EMAIL_TO = env ''EMAIL_TO''\<rparr>"
  have l: "load_settings to_int env = Inr ?s"
    using h by (simp add: load_settings_def)
  have "\<not> all_settings ?s" by (simp add: all_settings_def truthy_int_def)
  then have "deliver False ?s smtp executed_at body_text csv_buf = ([Print body_text], Inr 2)"
    by (rule deliver_missing)
  with l show "\<exists>s. load_settings to_int env = Inr s \<and> SMTP_PORT s = None
          \<and> deliver False s smtp executed_at body_text csv_buf = ([Print body_text], Inr 2)"
    by simp
next
  fix p n
  assume "env ''SMTP_PORT'' = Some p \<and> p \<noteq> [] \<and> to_int p = Inr n"
  then show "\<exists>s. load_settings to_int env = Inr s \<and> SMTP_PORT s = Some n"
    by (simp add: load_settings_def truthy_str_def)
next
  fix s
  assume "load_settings to_int env = Inr s"
  then show "EMAIL_FROM s = (if truthy_str (env ''EMAIL_FROM'') then env ''EMAIL_FROM''
                        else env ''SMTP_USER'')"
    by (auto simp: load_settings_def Let_def split: if_splits sum.splits)
qed

text \<open>
  The claim as the specification words it fails on an environment with host, user name,
  password, sender and recipients, and no port: no message goes out on port 587, the run
  ends with the exit code 2.
\<close>

theorem port_has_no_default_counterexample:
  "load_settings decimal_int env_no_port = Inr settings_no_port
   \<and> deliver False settings_no_port accepting ''now'' ''body'' ''csv''
       = ([Print ''body''], Inr 2)"
  by (simp add: settings_defs)

theorem port_has_no_default_witness:
  "load_settings decimal_int env_no_port = Inr settings_no_port
   \<and> deliver False settings_no_port accepting ''now'' ''body'' ''csv''
       = ([Print ''body''], Inr 2)
   \<and> load_settings decimal_int env_port_no_sender = Inr settings_port_no_sender"
proof -
  have a: "\<not> truthy_str (env_no_port ''SMTP_PORT'')"
    by (simp add: env_no_port_def truthy_str_def)
  have l1: "load_settings decimal_int env_no_port = Inr settings_no_port"
    by (simp add: settings_defs)
  have l2: "load_settings decimal_int env_port_no_sender = Inr settings_port_no_sender"
    by (simp add: settings_defs)
  note t = port_has_no_default[of env_no_port decimal_int accepting "''now''" "''body''" "''csv''"]
  from t[THEN conjunct1, rule_format, OF a] l1
  have "deliver False settings_no_port accepting ''now'' ''body'' ''csv''
       = ([Print ''body''], Inr 2)"
    by auto
  with l1 l2 show ?thesis by simp
qed

end
